theory Spec2Isabelle
  imports Complex_Main
begin

section \<open>Thermocouple configuration and timed acquisition (kimlab\_datalogging)\<close>

text \<open>
  A shallow embedding of \<^verbatim>\<open>03_my_thermocouple.py\<close>. The helper functions
  \<^verbatim>\<open>create_analog_channel\<close> \dots \<^verbatim>\<open>set_time_interval_between_readings\<close> of
  \<^verbatim>\<open>04_read_plot_thermocouples.py\<close> are the same code without the comments, so one
  definition stands for both files. The routine that is modelled as a whole is
  \<^verbatim>\<open>read_and_log_thermocouple\<close> of file 03 (the one with an iteration bound); the
  routine of file 04 hands its loop to a plotting event loop and is not modelled.

  Conventions of the model:
  \<^item> Python \<^verbatim>\<open>int\<close> is \<open>int\<close>, Python \<^verbatim>\<open>float\<close> is \<open>real\<close> (rounding is not
    modelled), \<^verbatim>\<open>str\<close> is \<open>string\<close> restricted to ASCII.
  \<^item> An exception is a value of type \<open>error\<close>; a function that can raise returns
    \<open>error + 'a\<close> with \<open>Inl\<close> for the exception.
  \<^item> The device, the clock and the file system are outside the program. What they
    answer is given by an \<open>env\<close>; what the program has done to them is a \<open>world\<close>,
    passed through every call that touches the device.
  \<^item> \<^verbatim>\<open>print\<close> calls are left out, and with them the parameter
    \<^verbatim>\<open>print_output_flag\<close>, except that the exception printed by the sampling loop
    before its \<^verbatim>\<open>break\<close> is returned by the loop.
  \<^item> Setting, waiting for and clearing the interval timer and closing an open handle
    are taken to succeed, except that a wait may raise inside the loop, where the
    \<^verbatim>\<open>except\<close> clause covers it. An interrupt from the keyboard is not modelled.
\<close>

subsection \<open>Strings\<close>

definition upper_to_lower :: "(char \<times> char) list" where
  "upper_to_lower = zip ''ABCDEFGHIJKLMNOPQRSTUVWXYZ'' ''abcdefghijklmnopqrstuvwxyz''"

definition lower_char :: "char \<Rightarrow> char" where
  "lower_char c = (case map_of upper_to_lower c of Some d \<Rightarrow> d | None \<Rightarrow> c)"

text \<open>\<^verbatim>\<open>str.lower()\<close> on ASCII text.\<close>

definition lower :: "string \<Rightarrow> string" where
  "lower s = map lower_char s"

definition digit_char :: "nat \<Rightarrow> char" where
  "digit_char d = ''0123456789'' ! d"

text \<open>Decimal text of a number, as \<^verbatim>\<open>"{}".format(n)\<close> prints an \<^verbatim>\<open>int\<close>.\<close>

function str_of_nat :: "nat \<Rightarrow> string" where
  "str_of_nat n =
     (if n < 10 then [digit_char n]
      else str_of_nat (n div 10) @ [digit_char (n mod 10)])"
  by pat_completeness auto
termination
  by (relation "measure id") auto

declare str_of_nat.simps [simp del]

definition str_of_int :: "int \<Rightarrow> string" where
  "str_of_int i =
     (if i < 0 then CHR ''-'' # str_of_nat (nat (- i)) else str_of_nat (nat i))"

subsection \<open>Values, exceptions, the outside world\<close>

text \<open>The values the program writes to registers: Python ints and floats.\<close>

datatype pyval = PyInt int | PyFloat real

datatype error =
    KeyError string
  | TypeError
  | UnboundLocalError string
  | SystemExit int
  | LJMError string
  | OSError string

text \<open>
  What the outside answers. \<open>open_res\<close> is the outcome of \<^verbatim>\<open>ljm.openS\<close> followed by
  \<^verbatim>\<open>ljm.getHandleInfo\<close>: an error message, or the device type \<^verbatim>\<open>info[0]\<close>.
  \<open>write_res k\<close> is the outcome of the \<open>k\<close>-th register write call of the session
  (\<^verbatim>\<open>eWriteName\<close> or \<^verbatim>\<open>eWriteNames\<close>, counted from 0), \<open>read_res i\<close> that of the
  \<^verbatim>\<open>eReadNames\<close> call of tick \<open>i\<close> (an error message, or the value of every
  register), \<open>wait_res i\<close> that of the \<^verbatim>\<open>waitForNextInterval\<close> call of tick \<open>i\<close>.
  \<open>now j\<close> is the \<open>j\<close>-th reading of \<^verbatim>\<open>datetime.now()\<close> in microseconds: reading
  0 is \<^verbatim>\<open>start_time\<close>, reading \<open>i + 1\<close> is the \<^verbatim>\<open>current_time\<close> of tick \<open>i\<close>.
  \<open>save_res\<close> is the outcome of writing the CSV file when a destination is given.
\<close>

record env =
  open_res :: "string + int"
  write_res :: "nat \<Rightarrow> string option"
  read_res :: "nat \<Rightarrow> string + (string \<Rightarrow> real)"
  wait_res :: "nat \<Rightarrow> string option"
  now :: "nat \<Rightarrow> int"
  save_res :: "string option"

text \<open>One row of \<^verbatim>\<open>data\<close>: the values read, then the time stamp and \<^verbatim>\<open>dt\<close>.\<close>

record row =
  readings :: "real list"
  time :: int
  dt :: real

text \<open>The \<^verbatim>\<open>DataFrame\<close> built after the loop, with its \<^verbatim>\<open>'T unit'\<close> column.\<close>

record table =
  columns :: "string list"
  rows :: "row list"
  t_unit :: string

text \<open>
  What the program has done to the outside: whether the device handle is open, the
  interval timer that is set (its period in microseconds), every register write call
  issued so far, oldest first, each as its list of (name, value) frames, and the table
  written to disk.
\<close>

record world =
  handle_open :: bool
  interval :: "int option"
  wlog :: "(string \<times> pyval) list list"
  saved :: "table option"

definition world0 :: world where
  "world0 = \<lparr>handle_open = False, interval = None, wlog = [], saved = None\<rparr>"

subsection \<open>The calls into the LJM library\<close>

text \<open>
  The constants of \<^verbatim>\<open>ljm.constants\<close> (the LabJack library, not part of this
  repository): \<^verbatim>\<open>dtT4 = 4\<close>, \<^verbatim>\<open>dtT7 = 7\<close>, \<^verbatim>\<open>dtT8 = 8\<close>, \<^verbatim>\<open>GND = 199\<close>.
\<close>

definition dtT4 :: int where "dtT4 = 4"
definition dtT7 :: int where "dtT7 = 7"
definition dtT8 :: int where "dtT8 = 8"
definition GND :: int where "GND = 199"

text \<open>A write call is logged when it is issued; then the device answers.\<close>

definition eWriteNames ::
  "env \<Rightarrow> world \<Rightarrow> nat \<Rightarrow> string list \<Rightarrow> pyval list \<Rightarrow> (error + unit) \<times> world" where
  "eWriteNames env w numFrames aNames aValues =
     (let w' = w\<lparr>wlog := wlog w @ [take numFrames (zip aNames aValues)]\<rparr>
      in case write_res env (length (wlog w)) of
           Some msg \<Rightarrow> (Inl (LJMError msg), w')
         | None \<Rightarrow> (Inr (), w'))"

definition eWriteName ::
  "env \<Rightarrow> world \<Rightarrow> string \<Rightarrow> pyval \<Rightarrow> (error + unit) \<times> world" where
  "eWriteName env w name v = eWriteNames env w 1 [name] [v]"

definition eReadNames :: "env \<Rightarrow> nat \<Rightarrow> nat \<Rightarrow> string list \<Rightarrow> error + real list" where
  "eReadNames env i numFrames aNames =
     (case read_res env i of
        Inl msg \<Rightarrow> Inl (LJMError msg)
      | Inr regs \<Rightarrow> Inr (map regs (take numFrames aNames)))"

definition waitForNextInterval :: "env \<Rightarrow> nat \<Rightarrow> error + unit" where
  "waitForNextInterval env i =
     (case wait_res env i of Some msg \<Rightarrow> Inl (LJMError msg) | None \<Rightarrow> Inr ())"

definition startInterval :: "world \<Rightarrow> int \<Rightarrow> world" where
  "startInterval w microseconds = w\<lparr>interval := Some microseconds\<rparr>"

definition cleanInterval :: "world \<Rightarrow> world" where
  "cleanInterval w = w\<lparr>interval := None\<rparr>"

definition close :: "world \<Rightarrow> world" where
  "close w = w\<lparr>handle_open := False\<rparr>"

subsection \<open>The functions of the repository\<close>

definition get_labjack_handle :: "env \<Rightarrow> world \<Rightarrow> (error + int) \<times> world" where
  "get_labjack_handle env w =
     (case open_res env of
        Inl msg \<Rightarrow> (Inl (LJMError msg), w)
      | Inr device_type \<Rightarrow> (Inr device_type, w\<lparr>handle_open := True\<rparr>))"

definition create_analog_channel :: "int \<Rightarrow> string" where
  "create_analog_channel channel = ''AIN'' @ str_of_int channel"

definition ef_indices :: "(string \<times> int) list" where
  "ef_indices =
     [(''e'', 20), (''j'', 21), (''k'', 22), (''r'', 23), (''t'', 24),
      (''s'', 25), (''n'', 27), (''b'', 28), (''c'', 30)]"

definition set_tc_index :: "string \<Rightarrow> error + int" where
  "set_tc_index tc_type =
     (let tc_type = lower tc_type
      in case map_of ef_indices tc_type of
           None \<Rightarrow> Inl (KeyError tc_type)
         | Some i \<Rightarrow> Inr i)"

definition temp_unit_index :: "(string \<times> int) list" where
  "temp_unit_index = [(''k'', 0), (''c'', 1), (''f'', 2)]"

definition get_temp_unit_index :: "string \<Rightarrow> error + int" where
  "get_temp_unit_index T_unit_name =
     (let T_unit_name = lower T_unit_name
      in case map_of temp_unit_index T_unit_name of
           None \<Rightarrow> Inl (KeyError T_unit_name)
         | Some i \<Rightarrow> Inr i)"

text \<open>
  Neither branch assigns \<^verbatim>\<open>neg_channel_value\<close> when the device is neither a T7
  nor a T4: the \<^verbatim>\<open>return\<close> then raises \<^verbatim>\<open>UnboundLocalError\<close> on the first name
  it reads. \<^verbatim>\<open>exit(0)\<close> raises \<^verbatim>\<open>SystemExit(0)\<close>.
\<close>

definition get_channel_value_register ::
  "env \<Rightarrow> world \<Rightarrow> int \<Rightarrow> string \<Rightarrow> (error + int \<times> string) \<times> world" where
  "get_channel_value_register env w device_type channel_name =
     (if device_type = dtT7 then
        (let neg_channel_value = GND;
             neg_channel_register = channel_name @ ''_NEGATIVE_CH''
         in case eWriteName env w neg_channel_register (PyInt neg_channel_value) of
              (Inl e, w') \<Rightarrow> (Inl e, w')
            | (Inr u, w') \<Rightarrow> (Inr (neg_channel_value, neg_channel_register), w'))
      else if device_type = dtT4 then (Inl (SystemExit 0), w)
      else (Inl (UnboundLocalError ''neg_channel_value''), w))"

definition get_cjc_address :: "int \<Rightarrow> int \<Rightarrow> int" where
  "get_cjc_address device_type channel =
     (if device_type = dtT8 then 600 + 2 * channel else 60052)"

text \<open>The bare \<^verbatim>\<open>return\<close> of the \<^verbatim>\<open>else\<close> branch returns \<^verbatim>\<open>None\<close>.\<close>

definition set_cjc_slope_offset :: "string \<Rightarrow> (real \<times> real) option" where
  "set_cjc_slope_offset tc_type =
     (if lower tc_type = ''k'' then Some (1.0, 0.0) else None)"

fun set_resolution_index_loop ::
  "env \<Rightarrow> world \<Rightarrow> (string \<times> int) list \<Rightarrow> (error + unit) \<times> world" where
  "set_resolution_index_loop env w [] = (Inr (), w)"
| "set_resolution_index_loop env w ((channel_name, channel) # rest) =
     (let resolution_index_register = channel_name @ ''_RESOLUTION_INDEX''
      in case eWriteName env w resolution_index_register (PyInt channel) of
           (Inl e, w') \<Rightarrow> (Inl e, w')
         | (Inr u, w') \<Rightarrow> set_resolution_index_loop env w' rest)"

definition set_resolution_index_registers ::
  "env \<Rightarrow> world \<Rightarrow> string list \<Rightarrow> int list \<Rightarrow> (error + unit) \<times> world" where
  "set_resolution_index_registers env w channel_names channels =
     set_resolution_index_loop env w (zip channel_names channels)"

text \<open>
  The loop of \<^verbatim>\<open>configure_ain_ef_registers\<close>, with its two accumulators. The batched
  write is inside the loop body, after the five appends. The loop returns the
  accumulators as they are when it ends.
\<close>

fun ain_ef_loop ::
  "env \<Rightarrow> world \<Rightarrow> string list \<Rightarrow> pyval list \<Rightarrow> int \<Rightarrow> int \<Rightarrow> real \<Rightarrow> real \<Rightarrow>
   (string \<times> int) list \<Rightarrow> (error + string list \<times> pyval list) \<times> world" where
  "ain_ef_loop env w aNames aValues tc_index tu_index cjc_slope cjc_offset [] =
     (Inr (aNames, aValues), w)"
| "ain_ef_loop env w aNames aValues tc_index tu_index cjc_slope cjc_offset
     ((channel_name, cjc_address) # rest) =
     (let aNames = aNames @ [channel_name @ ''_EF_INDEX''];
          aValues = aValues @ [PyInt tc_index];
          aNames = aNames @ [channel_name @ ''_EF_CONFIG_A''];
          aValues = aValues @ [PyInt tu_index];
          aNames = aNames @ [channel_name @ ''_EF_CONFIG_B''];
          aValues = aValues @ [PyInt cjc_address];
          aNames = aNames @ [channel_name @ ''_EF_CONFIG_D''];
          aValues = aValues @ [PyFloat cjc_slope];
          aNames = aNames @ [channel_name @ ''_EF_CONFIG_E''];
          aValues = aValues @ [PyFloat cjc_offset]
      in case eWriteNames env w (length aNames) aNames aValues of
           (Inl e, w') \<Rightarrow> (Inl e, w')
         | (Inr u, w') \<Rightarrow>
             ain_ef_loop env w' aNames aValues tc_index tu_index cjc_slope cjc_offset rest)"

definition configure_ain_ef_registers ::
  "env \<Rightarrow> world \<Rightarrow> string list \<Rightarrow> int \<Rightarrow> int \<Rightarrow> int list \<Rightarrow> real \<Rightarrow> real \<Rightarrow>
   (error + unit) \<times> world" where
  "configure_ain_ef_registers env w channel_names tc_index tu_index cjc_addresses
     cjc_slope cjc_offset =
     (case ain_ef_loop env w [] [] tc_index tu_index cjc_slope cjc_offset
             (zip channel_names cjc_addresses) of
        (Inl e, w') \<Rightarrow> (Inl e, w')
      | (Inr plan, w') \<Rightarrow> (Inr (), w'))"

definition get_read_ABC :: "string \<Rightarrow> string list \<times> string list" where
  "get_read_ABC channel_name =
     (let readA = channel_name @ ''_EF_READ_A'';
          readB = channel_name @ ''_EF_READ_B'';
          readC = channel_name @ ''_EF_READ_C'';
          abcs = [readA, readB, readC];
          labels = [''T_thermocouple'', ''V_thermocouple'', ''T_cold_junction''];
          labels = map (\<lambda>i. i @ ''_'' @ channel_name) labels
      in (abcs, labels))"

text \<open>\<^verbatim>\<open>int(x)\<close> on a float: truncation towards zero.\<close>

definition py_int :: "real \<Rightarrow> int" where
  "py_int x = (if 0 \<le> x then \<lfloor>x\<rfloor> else \<lceil>x\<rceil>)"

definition set_time_interval_between_readings :: "world \<Rightarrow> real \<Rightarrow> world" where
  "set_time_interval_between_readings w seconds_between_readings =
     (let microseconds_between_readings = py_int (seconds_between_readings * 10 ^ 6)
      in startInterval w microseconds_between_readings)"

text \<open>
  The \<^verbatim>\<open>for\<close> loop of \<^verbatim>\<open>read_and_log_thermocouple\<close> (lines 289 to 317). \<open>i\<close> is
  the loop variable, the next argument counts the iterations still to run, \<open>data\<close> is
  the list the loop appends to. The \<^verbatim>\<open>except\<close> clause covers the whole body, so an
  exception of the read or of the wait ends the loop with \<open>data\<close> as it is at that
  point; the exception it prints is the second component. The lists \<^verbatim>\<open>times\<close> and
  \<^verbatim>\<open>delta_times\<close> are never read and are left out. The time stamp of a row is kept
  as the clock reading, not as formatted text.
\<close>

fun sample_loop ::
  "env \<Rightarrow> string list \<Rightarrow> int \<Rightarrow> nat \<Rightarrow> nat \<Rightarrow> row list \<Rightarrow> row list \<times> error option" where
  "sample_loop env abcs_flattened start_time i 0 data = (data, None)"
| "sample_loop env abcs_flattened start_time i (Suc remaining) data =
     (let current_time = now env (Suc i);
          dt = real_of_int (current_time - start_time) / 10 ^ 6
      in case eReadNames env i (length abcs_flattened) abcs_flattened of
           Inl e \<Rightarrow> (data, Some e)
         | Inr data_in \<Rightarrow>
             (let data = data @ [\<lparr>readings = data_in, time = current_time, dt = dt\<rparr>]
              in case waitForNextInterval env i of
                   Inl e \<Rightarrow> (data, Some e)
                 | Inr u \<Rightarrow>
                     sample_loop env abcs_flattened start_time (Suc i) remaining data))"

text \<open>
  Lines 245 to 250: one call of \<^verbatim>\<open>get_channel_value_register\<close> per channel name, the
  results appended to two lists.
\<close>

fun neg_channel_loop ::
  "env \<Rightarrow> world \<Rightarrow> int \<Rightarrow> int list \<Rightarrow> string list \<Rightarrow> string list \<Rightarrow>
   (error + int list \<times> string list) \<times> world" where
  "neg_channel_loop env w device_type neg_channel_values neg_channel_registers [] =
     (Inr (neg_channel_values, neg_channel_registers), w)"
| "neg_channel_loop env w device_type neg_channel_values neg_channel_registers
     (channel_name # rest) =
     (case get_channel_value_register env w device_type channel_name of
        (Inl e, w') \<Rightarrow> (Inl e, w')
      | (Inr (ncv, ncr), w') \<Rightarrow>
          neg_channel_loop env w' device_type (neg_channel_values @ [ncv])
            (neg_channel_registers @ [ncr]) rest)"

text \<open>
  Lines 324 to 333. \<open>save_to = None\<close> stands for \<^verbatim>\<open>save_to is False\<close>. Which file
  name is used and whether the directory exists is the file system's business: the
  outcome is \<open>save_res\<close>.
\<close>

definition save_table ::
  "env \<Rightarrow> world \<Rightarrow> string option \<Rightarrow> table \<Rightarrow> (error + unit) \<times> world" where
  "save_table env w save_to data =
     (case save_to of
        None \<Rightarrow> (Inr (), w)
      | Some path \<Rightarrow>
          (case save_res env of
             Some msg \<Rightarrow> (Inl (OSError msg), w)
           | None \<Rightarrow> (Inr (), w\<lparr>saved := Some data\<rparr>)))"

text \<open>
  What a run that reaches its \<^verbatim>\<open>return\<close> has produced: the table it printed, and the
  exception the loop printed before its \<^verbatim>\<open>break\<close>, if it broke.
\<close>

record run =
  out_data :: table
  loop_error :: "error option"

text \<open>
  \<^verbatim>\<open>read_and_log_thermocouple\<close>, statement by statement. Unpacking the \<^verbatim>\<open>None\<close> that
  \<^verbatim>\<open>set_cjc_slope_offset\<close> returns raises \<^verbatim>\<open>TypeError\<close>. An exception outside the
  loop is caught nowhere: the routine ends there, with the world as it is.
\<close>

definition read_and_log_thermocouple ::
  "env \<Rightarrow> int list \<Rightarrow> string \<Rightarrow> string \<Rightarrow> int \<Rightarrow> real \<Rightarrow> string option \<Rightarrow>
   (error + run) \<times> world" where
  "read_and_log_thermocouple env channels tc_type temp_unit num_iterations
     seconds_between_readings save_to =
     (case get_labjack_handle env world0 of
        (Inl e, w) \<Rightarrow> (Inl e, w)
      | (Inr device_type, w) \<Rightarrow>
     (case set_tc_index tc_type of
        Inl e \<Rightarrow> (Inl e, w)
      | Inr tc_index \<Rightarrow>
     (case set_cjc_slope_offset tc_type of
        None \<Rightarrow> (Inl TypeError, w)
      | Some (cjc_slope, cjc_offset) \<Rightarrow>
     (case get_temp_unit_index temp_unit of
        Inl e \<Rightarrow> (Inl e, w)
      | Inr tu_index \<Rightarrow>
     (let channel_names = map create_analog_channel channels
      in case neg_channel_loop env w device_type [] [] channel_names of
        (Inl e, w) \<Rightarrow> (Inl e, w)
      | (Inr negs, w) \<Rightarrow>
     (let cjc_addresses = map (get_cjc_address device_type) channels
      in case set_resolution_index_registers env w channel_names channels of
        (Inl e, w) \<Rightarrow> (Inl e, w)
      | (Inr u, w) \<Rightarrow>
     (case configure_ain_ef_registers env w channel_names tc_index tu_index
             cjc_addresses cjc_slope cjc_offset of
        (Inl e, w) \<Rightarrow> (Inl e, w)
      | (Inr u, w) \<Rightarrow>
     (let w = set_time_interval_between_readings w seconds_between_readings;
          abcs = map (\<lambda>channel_name. fst (get_read_ABC channel_name)) channel_names;
          labels = map (\<lambda>channel_name. snd (get_read_ABC channel_name)) channel_names;
          abcs_flattened = concat abcs;
          labels_flattened = concat labels @ [''time'', ''dt''];
          start_time = now env 0;
          (rws, err) = sample_loop env abcs_flattened start_time 0 (nat num_iterations) [];
          tab = \<lparr>columns = labels_flattened, rows = rws, t_unit = temp_unit\<rparr>
      in case save_table env w save_to tab of
        (Inl e, w) \<Rightarrow> (Inl e, w)
      | (Inr u, w) \<Rightarrow>
          (Inr \<lparr>out_data = tab, loop_error = err\<rparr>, close (cleanInterval w))))))))))"

subsection \<open>Reference environments and descriptions used in the statements\<close>

text \<open>
  A healthy session on a device of the given type: the device opens, every write, read
  and wait succeeds, every register reads as the tick number, the clock advances by one
  second per reading, saving succeeds.
\<close>

definition env_ok :: "int \<Rightarrow> env" where
  "env_ok device_type =
     \<lparr>open_res = Inr device_type, write_res = (\<lambda>k. None),
      read_res = (\<lambda>i. Inr (\<lambda>r. real i)), wait_res = (\<lambda>i. None),
      now = (\<lambda>j. int j * 1000000), save_res = None\<rparr>"

text \<open>
  The five frames one pass of the loop of \<^verbatim>\<open>configure_ain_ef_registers\<close> appends for a
  channel name paired with its CJC address, and the batches a loop writes that starts
  with the frames \<open>acc\<close> and appends \<open>F c\<close> for each \<open>c\<close>.
\<close>

definition ef_suffixes :: "string list" where
  "ef_suffixes =
     [''_EF_INDEX'', ''_EF_CONFIG_A'', ''_EF_CONFIG_B'', ''_EF_CONFIG_D'', ''_EF_CONFIG_E'']"

definition ef_frames ::
  "int \<Rightarrow> int \<Rightarrow> real \<Rightarrow> real \<Rightarrow> string \<times> int \<Rightarrow> (string \<times> pyval) list" where
  "ef_frames tc_index tu_index cjc_slope cjc_offset p =
     [(fst p @ ''_EF_INDEX'', PyInt tc_index),
      (fst p @ ''_EF_CONFIG_A'', PyInt tu_index),
      (fst p @ ''_EF_CONFIG_B'', PyInt (snd p)),
      (fst p @ ''_EF_CONFIG_D'', PyFloat cjc_slope),
      (fst p @ ''_EF_CONFIG_E'', PyFloat cjc_offset)]"

fun batches_from :: "('a \<Rightarrow> 'b list) \<Rightarrow> 'b list \<Rightarrow> 'a list \<Rightarrow> 'b list list" where
  "batches_from F acc [] = []"
| "batches_from F acc (c # cs) = (acc @ F c) # batches_from F (acc @ F c) cs"

text \<open>
  The row tick \<open>i\<close> appends when its read succeeds, what it means that a tick goes through
  (its read and its wait raise nothing), and the registers the routine reads for a list
  of channels (\<^verbatim>\<open>abcs_flattened\<close>).
\<close>

definition tick_row :: "env \<Rightarrow> string list \<Rightarrow> int \<Rightarrow> nat \<Rightarrow> row" where
  "tick_row env abcs_flattened start_time i =
     \<lparr>readings = (case read_res env i of Inr regs \<Rightarrow> map regs abcs_flattened | Inl msg \<Rightarrow> []),
      time = now env (Suc i),
      dt = real_of_int (now env (Suc i) - start_time) / 10 ^ 6\<rparr>"

definition tick_ok :: "env \<Rightarrow> nat \<Rightarrow> bool" where
  "tick_ok env i = (\<not> isl (read_res env i) \<and> wait_res env i = None)"

definition read_names :: "int list \<Rightarrow> string list" where
  "read_names channels =
     concat (map (\<lambda>channel_name. fst (get_read_ABC channel_name))
               (map create_analog_channel channels))"

text \<open>
  Variations of the healthy T7 session: the third read fails; the wall clock steps back
  between the first and the second tick; the first wait fails; the second register write
  fails; the file cannot be written.
\<close>

definition env_read3_fails :: env where
  "env_read3_fails =
     (env_ok dtT7)\<lparr>read_res := (\<lambda>i. if i = 2 then Inl ''read 3 failed'' else Inr (\<lambda>r. real i))\<rparr>"

definition env_clock_back :: env where
  "env_clock_back =
     (env_ok dtT7)\<lparr>now := (\<lambda>j. if j = 2 then 500000 else int j * 1000000)\<rparr>"

definition env_wait_fails :: env where
  "env_wait_fails =
     (env_ok dtT7)\<lparr>wait_res := (\<lambda>i. if i = 0 then Some ''wait failed'' else None)\<rparr>"

definition env_write_fails :: env where
  "env_write_fails =
     (env_ok dtT7)\<lparr>write_res := (\<lambda>k. if k = 1 then Some ''write failed'' else None)\<rparr>"

definition env_save_fails :: env where
  "env_save_fails = (env_ok dtT7)\<lparr>save_res := Some ''disk full''\<rparr>"

subsection \<open>Facts about strings and single steps\<close>

lemma lower_upper_letters:
  "lower ''E'' = ''e''" "lower ''J'' = ''j''" "lower ''K'' = ''k''" "lower ''R'' = ''r''"
  "lower ''T'' = ''t''" "lower ''S'' = ''s''" "lower ''N'' = ''n''" "lower ''B'' = ''b''"
  "lower ''C'' = ''c''"
  by (simp_all add: lower_def lower_char_def upper_to_lower_def)

lemma lower_lower_letters:
  "lower ''e'' = ''e''" "lower ''j'' = ''j''" "lower ''k'' = ''k''" "lower ''r'' = ''r''"
  "lower ''t'' = ''t''" "lower ''s'' = ''s''" "lower ''n'' = ''n''" "lower ''b'' = ''b''"
  "lower ''c'' = ''c''"
  by (simp_all add: lower_def lower_char_def upper_to_lower_def)

subsection \<open>Cold-junction compensation\<close>

text \<open>
  Claim C1. For each thermocouple type E, J, R, T, S, N, B, C (written in either case)
  \<^verbatim>\<open>set_cjc_slope_offset\<close> gives no slope and offset at all (it returns \<^verbatim>\<open>None\<close>,
  never the values of type K), and for type K it gives slope 1.0 and offset 0.0.
\<close>

theorem set_cjc_slope_offset_types:
  "set_cjc_slope_offset ''E'' = None \<and> set_cjc_slope_offset ''e'' = None \<and>
   set_cjc_slope_offset ''J'' = None \<and> set_cjc_slope_offset ''j'' = None \<and>
   set_cjc_slope_offset ''R'' = None \<and> set_cjc_slope_offset ''r'' = None \<and>
   set_cjc_slope_offset ''T'' = None \<and> set_cjc_slope_offset ''t'' = None \<and>
   set_cjc_slope_offset ''S'' = None \<and> set_cjc_slope_offset ''s'' = None \<and>
   set_cjc_slope_offset ''N'' = None \<and> set_cjc_slope_offset ''n'' = None \<and>
   set_cjc_slope_offset ''B'' = None \<and> set_cjc_slope_offset ''b'' = None \<and>
   set_cjc_slope_offset ''C'' = None \<and> set_cjc_slope_offset ''c'' = None \<and>
   set_cjc_slope_offset ''K'' = Some (1, 0) \<and> set_cjc_slope_offset ''k'' = Some (1, 0)"
  by (simp add: set_cjc_slope_offset_def lower_upper_letters lower_lower_letters)

text \<open>
  Claim C3. For every channel number \<open>c\<close>, \<^verbatim>\<open>get_cjc_address\<close> returns \<open>600 + 2 * c\<close>
  on a T8 (per-channel temperature registers) and the constant 60052 on a T7 (one
  device temperature register), whatever \<open>c\<close> is.
\<close>

theorem get_cjc_address_variants:
  "get_cjc_address dtT8 c = 600 + 2 * c \<and> get_cjc_address dtT7 c = 60052"
  by (simp add: get_cjc_address_def dtT7_def dtT8_def)

subsection \<open>Single steps of the routine\<close>

lemma str_of_int_digits:
  "str_of_int 0 = ''0''" "str_of_int 1 = ''1''" "str_of_int 2 = ''2''"
  by (simp_all add: str_of_int_def str_of_nat.simps digit_char_def)

lemma env_ok_sel:
  "open_res (env_ok d) = Inr d" "write_res (env_ok d) k = None"
  "read_res (env_ok d) i = Inr (\<lambda>r. real i)" "wait_res (env_ok d) i = None"
  "now (env_ok d) j = int j * 1000000" "save_res (env_ok d) = None"
  by (simp_all add: env_ok_def)

lemma get_temp_unit_index_ok:
  "lower temp_unit \<in> set [''k'', ''c'', ''f''] \<Longrightarrow> \<exists>i. get_temp_unit_index temp_unit = Inr i"
  by (auto simp: get_temp_unit_index_def temp_unit_index_def)

lemma set_tc_index_k: "lower tc_type = ''k'' \<Longrightarrow> set_tc_index tc_type = Inr 22"
  by (simp add: set_tc_index_def ef_indices_def)

lemma set_cjc_slope_offset_k:
  "lower tc_type = ''k'' \<Longrightarrow> set_cjc_slope_offset tc_type = Some (1, 0)"
  by (simp add: set_cjc_slope_offset_def)

lemma get_channel_value_register_dtT8:
  "get_channel_value_register env w dtT8 channel_name =
     (Inl (UnboundLocalError ''neg_channel_value''), w)"
  by (simp add: get_channel_value_register_def dtT8_def dtT7_def dtT4_def)

lemma get_channel_value_register_dtT4:
  "get_channel_value_register env w dtT4 channel_name = (Inl (SystemExit 0), w)"
  by (simp add: get_channel_value_register_def dtT7_def dtT4_def)

lemma eWriteNames_frame:
  "eWriteNames env w n ns vs = (r, w') \<Longrightarrow>
   handle_open w' = handle_open w \<and> interval w' = interval w \<and> saved w' = saved w"
  by (auto simp: eWriteNames_def Let_def split: option.splits)

lemma eWriteNames_Inr:
  "eWriteNames env w n ns vs = (Inr u, w') \<Longrightarrow>
   w' = w\<lparr>wlog := wlog w @ [take n (zip ns vs)]\<rparr>"
  by (auto simp: eWriteNames_def Let_def split: option.splits)

lemma eWriteNames_ok:
  "write_res env (length (wlog w)) = None \<Longrightarrow>
   eWriteNames env w n ns vs = (Inr (), w\<lparr>wlog := wlog w @ [take n (zip ns vs)]\<rparr>)"
  by (simp add: eWriteNames_def Let_def)

subsection \<open>Unsupported and unhandled device types\<close>

lemma routine_dtT4_no_write:
  assumes "open_res env = Inr dtT4"
  shows "wlog (snd (read_and_log_thermocouple env channels tc_type temp_unit n s save_to)) = []"
proof (cases channels)
  case Nil
  then show ?thesis
    by (simp add: read_and_log_thermocouple_def get_labjack_handle_def assms world0_def
        set_resolution_index_registers_def configure_ain_ef_registers_def save_table_def
        set_time_interval_between_readings_def startInterval_def close_def cleanInterval_def
        Let_def split: sum.splits option.splits prod.splits)
next
  case (Cons c cs)
  then show ?thesis
    by (simp add: read_and_log_thermocouple_def get_labjack_handle_def assms world0_def
        get_channel_value_register_dtT4 split: sum.splits option.splits prod.splits)
qed

lemma routine_first_channel_fails:
  assumes dev: "open_res env = Inr device_type"
    and fails: "\<And>w cn. get_channel_value_register env w device_type cn = (Inl e, w)"
    and ch: "channels \<noteq> []"
    and tc: "lower tc_type = ''k''"
    and tu: "lower temp_unit \<in> set [''k'', ''c'', ''f'']"
  shows "read_and_log_thermocouple env channels tc_type temp_unit n s save_to =
           (Inl e, world0\<lparr>handle_open := True\<rparr>)"
proof -
  obtain c cs where cs: "channels = c # cs"
    using ch by (cases channels) auto
  obtain i where u: "get_temp_unit_index temp_unit = Inr i"
    using get_temp_unit_index_ok[OF tu] by blast
  show ?thesis
    by (simp add: read_and_log_thermocouple_def get_labjack_handle_def dev
        set_tc_index_k[OF tc] set_cjc_slope_offset_k[OF tc] u cs fails)
qed

text \<open>
  Claim C5. On a T4 (the device type without the thermocouple extended function)
  \<^verbatim>\<open>get_channel_value_register\<close> raises \<^verbatim>\<open>SystemExit\<close> without writing, the routine
  issues no register write at all whatever its arguments are, and for a request that
  is otherwise in order (at least one channel, type K, a known unit) the routine ends
  with that \<^verbatim>\<open>SystemExit\<close> at the first channel, the write log still empty.
\<close>

theorem unsupported_device_before_any_write:
  "get_channel_value_register env w dtT4 channel_name = (Inl (SystemExit 0), w) \<and>
   (open_res env = Inr dtT4 \<longrightarrow>
      wlog (snd (read_and_log_thermocouple env channels tc_type temp_unit n s save_to)) = []) \<and>
   (open_res env = Inr dtT4 \<and> channels \<noteq> [] \<and> lower tc_type = ''k'' \<and>
    lower temp_unit \<in> set [''k'', ''c'', ''f''] \<longrightarrow>
      read_and_log_thermocouple env channels tc_type temp_unit n s save_to =
        (Inl (SystemExit 0), world0\<lparr>handle_open := True\<rparr>))"
  using routine_dtT4_no_write[of env channels tc_type temp_unit n s save_to]
    routine_first_channel_fails[of env dtT4 "SystemExit 0" channels tc_type temp_unit n s save_to]
  by (simp add: get_channel_value_register_dtT4)

theorem unsupported_device_before_any_write_witness:
  "read_and_log_thermocouple (env_ok dtT4) [0, 2] ''k'' ''C'' 5 1 None =
     (Inl (SystemExit 0), world0\<lparr>handle_open := True\<rparr>) \<and>
   wlog (snd (read_and_log_thermocouple (env_ok dtT4) [0, 2] ''k'' ''C'' 5 1 None)) = []"
  using unsupported_device_before_any_write
    [of "env_ok dtT4" world0 "''AIN0''" "[0, 2]" "''k''" "''C''" 5 1 None]
  by (simp add: env_ok_sel lower_upper_letters lower_lower_letters world0_def)

text \<open>
  Claim C9. On a T8 \<^verbatim>\<open>get_channel_value_register\<close> takes neither branch and raises
  \<^verbatim>\<open>UnboundLocalError\<close> at its \<^verbatim>\<open>return\<close>, having written nothing; so the routine, asked
  for at least one channel of type K in a known unit on a T8, ends with that error.
\<close>

theorem T8_unbound_local:
  "get_channel_value_register env w dtT8 channel_name =
     (Inl (UnboundLocalError ''neg_channel_value''), w) \<and>
   (open_res env = Inr dtT8 \<and> channels \<noteq> [] \<and> lower tc_type = ''k'' \<and>
    lower temp_unit \<in> set [''k'', ''c'', ''f''] \<longrightarrow>
      read_and_log_thermocouple env channels tc_type temp_unit n s save_to =
        (Inl (UnboundLocalError ''neg_channel_value''), world0\<lparr>handle_open := True\<rparr>))"
  using routine_first_channel_fails
    [of env dtT8 "UnboundLocalError ''neg_channel_value''" channels tc_type temp_unit n s save_to]
  by (simp add: get_channel_value_register_dtT8)

theorem T8_unbound_local_witness:
  "read_and_log_thermocouple (env_ok dtT8) [0, 2] ''k'' ''C'' 5 1 None =
     (Inl (UnboundLocalError ''neg_channel_value''), world0\<lparr>handle_open := True\<rparr>)"
  using T8_unbound_local [of "env_ok dtT8" world0 "''AIN0''" "[0, 2]" "''k''" "''C''" 5 1 None]
  by (simp add: env_ok_sel lower_upper_letters lower_lower_letters)

subsection \<open>Resolution index\<close>

lemma set_resolution_index_loop_log:
  "set_resolution_index_loop env w ps = (Inr u, w') \<Longrightarrow>
   w' = w\<lparr>wlog := wlog w @ map (\<lambda>(cn, c). [(cn @ ''_RESOLUTION_INDEX'', PyInt c)]) ps\<rparr>"
proof (induction ps arbitrary: w)
  case Nil
  then show ?case by simp
next
  case (Cons p ps)
  obtain cn c where p: "p = (cn, c)" by (cases p)
  from Cons.prems obtain w1 where
    s1: "eWriteName env w (cn @ ''_RESOLUTION_INDEX'') (PyInt c) = (Inr (), w1)" and
    s2: "set_resolution_index_loop env w1 ps = (Inr u, w')"
    by (auto simp: p split: prod.splits sum.splits)
  have w1: "w1 = w\<lparr>wlog := wlog w @ [[(cn @ ''_RESOLUTION_INDEX'', PyInt c)]]\<rparr>"
    using eWriteNames_Inr[OF s1[unfolded eWriteName_def]] by simp
  show ?case using Cons.IH[OF s2] by (simp add: w1 p)
qed

lemma set_resolution_index_loop_ok:
  "\<forall>k. write_res env k = None \<Longrightarrow> \<exists>w'. set_resolution_index_loop env w ps = (Inr (), w')"
proof (induction ps arbitrary: w)
  case Nil
  then show ?case by simp
next
  case (Cons p ps)
  obtain cn c where p: "p = (cn, c)" by (cases p)
  show ?case using Cons.IH[OF Cons.prems] Cons.prems
    by (simp add: p eWriteName_def eWriteNames_ok)
qed

lemma map_zip_names:
  "map (\<lambda>(cn, c). f cn c) (zip (map g cs) cs) = map (\<lambda>c. f (g c) c) cs"
  by (induction cs) auto

lemma resolution_index_0_2:
  "set_resolution_index_registers (env_ok dtT7) world0 (map create_analog_channel [0, 2]) [0, 2] =
     (Inr (), world0\<lparr>wlog := [[(''AIN0_RESOLUTION_INDEX'', PyInt 0)],
                              [(''AIN2_RESOLUTION_INDEX'', PyInt 2)]]\<rparr>)"
  by (simp add: set_resolution_index_registers_def create_analog_channel_def str_of_int_digits
      eWriteName_def eWriteNames_def env_ok_def world0_def)

text \<open>
  Claim C8. When \<^verbatim>\<open>set_resolution_index_registers\<close> is called as the routine calls it
  (the names made from the channels) and returns, it has issued, in channel order, one
  write per channel \<open>n\<close>, of the value \<open>n\<close> itself to the register
  \<^verbatim>\<open>AIN<n>_RESOLUTION_INDEX\<close>, and nothing else. The code has no override parameter.
\<close>

theorem resolution_index_is_channel_number:
  assumes "set_resolution_index_registers env w (map create_analog_channel channels) channels =
             (Inr (), w')"
  shows "wlog w' = wlog w @
           map (\<lambda>n. [(''AIN'' @ str_of_int n @ ''_RESOLUTION_INDEX'', PyInt n)]) channels"
  using set_resolution_index_loop_log[OF assms[unfolded set_resolution_index_registers_def]]
  by (simp add: map_zip_names create_analog_channel_def)

theorem resolution_index_is_channel_number_witness:
  "set_resolution_index_registers (env_ok dtT7) world0 (map create_analog_channel [0, 2]) [0, 2] =
     (Inr (), world0\<lparr>wlog := [[(''AIN0_RESOLUTION_INDEX'', PyInt 0)],
                              [(''AIN2_RESOLUTION_INDEX'', PyInt 2)]]\<rparr>) \<and>
   wlog (world0\<lparr>wlog := [[(''AIN0_RESOLUTION_INDEX'', PyInt 0)],
                         [(''AIN2_RESOLUTION_INDEX'', PyInt 2)]]\<rparr>) =
     wlog world0 @ map (\<lambda>n. [(''AIN'' @ str_of_int n @ ''_RESOLUTION_INDEX'', PyInt n)]) [0, 2]"
  using resolution_index_is_channel_number[OF resolution_index_0_2] resolution_index_0_2
  by simp

subsection \<open>The extended-function registers\<close>

lemma length_batches_from: "length (batches_from F acc cs) = length cs"
  by (induction cs arbitrary: acc) auto

lemma nth_batches_from:
  "i < length cs \<Longrightarrow> batches_from F acc cs ! i = acc @ concat (map F (take (Suc i) cs))"
proof (induction cs arbitrary: acc i)
  case Nil
  then show ?case by simp
next
  case (Cons c cs)
  show ?case
  proof (cases i)
    case 0
    then show ?thesis by simp
  next
    case (Suc k)
    with Cons.prems have "k < length cs" by simp
    from Cons.IH[OF this] show ?thesis by (simp add: Suc)
  qed
qed

lemma ain_ef_loop_log:
  assumes "ain_ef_loop env w aNames aValues tc tu s o' cs = (Inr (aNames', aValues'), w')"
    and "length aNames = length aValues"
  shows "wlog w' = wlog w @ batches_from (ef_frames tc tu s o') (zip aNames aValues) cs \<and>
         zip aNames' aValues' = zip aNames aValues @ concat (map (ef_frames tc tu s o') cs) \<and>
         length aNames' = length aValues'"
  using assms
proof (induction cs arbitrary: w aNames aValues)
  case Nil
  then show ?case by simp
next
  case (Cons c cs)
  obtain cn a where c: "c = (cn, a)" by (cases c)
  define aN1 where "aN1 = aNames @ map (\<lambda>sfx. cn @ sfx) ef_suffixes"
  define aV1 where "aV1 = aValues @ [PyInt tc, PyInt tu, PyInt a, PyFloat s, PyFloat o']"
  have len1: "length aN1 = length aV1"
    using Cons.prems(2) by (simp add: aN1_def aV1_def ef_suffixes_def)
  have z1: "zip aN1 aV1 = zip aNames aValues @ ef_frames tc tu s o' c"
    using Cons.prems(2) by (simp add: aN1_def aV1_def ef_frames_def ef_suffixes_def c)
  from Cons.prems(1) obtain w1 where
    s1: "eWriteNames env w (length aN1) aN1 aV1 = (Inr (), w1)" and
    s2: "ain_ef_loop env w1 aN1 aV1 tc tu s o' cs = (Inr (aNames', aValues'), w')"
    by (auto simp: c aN1_def aV1_def ef_suffixes_def Let_def split: prod.splits sum.splits)
  have w1: "wlog w1 = wlog w @ [zip aN1 aV1]"
    using eWriteNames_Inr[OF s1] len1 by simp
  from Cons.IH[OF s2 len1] show ?case
    by (simp add: w1 z1)
qed

lemma ef_suffix_last:
  "sfx \<in> set ef_suffixes \<Longrightarrow> sfx' \<in> set ef_suffixes \<Longrightarrow> last sfx = last sfx' \<Longrightarrow> sfx = sfx'"
  by (auto simp: ef_suffixes_def)

lemma ef_suffix_nonempty: "sfx \<in> set ef_suffixes \<Longrightarrow> sfx \<noteq> []"
  by (auto simp: ef_suffixes_def)

lemma ef_suffix_inj:
  assumes "sfx \<in> set ef_suffixes" "sfx' \<in> set ef_suffixes" "a @ sfx = b @ sfx'"
  shows "a = b \<and> sfx = sfx'"
proof -
  have "last (a @ sfx) = last (b @ sfx')"
    using assms(3) by simp
  then have "last sfx = last sfx'"
    using ef_suffix_nonempty[OF assms(1)] ef_suffix_nonempty[OF assms(2)] by simp
  then have "sfx = sfx'"
    using ef_suffix_last[OF assms(1,2)] by simp
  with assms(3) show ?thesis by simp
qed

lemma map_fst_ef_frames:
  "map fst (ef_frames tc tu s o' p) = map (\<lambda>sfx. fst p @ sfx) ef_suffixes"
  by (simp add: ef_frames_def ef_suffixes_def)

lemma distinct_ef_suffixes: "distinct ef_suffixes"
  by (simp add: ef_suffixes_def)

lemma distinct_ef_frames: "distinct (map fst (ef_frames tc tu s o' p))"
  by (simp add: map_fst_ef_frames distinct_map distinct_ef_suffixes inj_on_def)

lemma ef_frames_names_disjoint:
  assumes "fst p \<noteq> fst q"
  shows "set (map fst (ef_frames tc tu s o' p)) \<inter> set (map fst (ef_frames tc tu s o' q)) = {}"
proof -
  have False if "r \<in> set (map fst (ef_frames tc tu s o' p))"
    "r \<in> set (map fst (ef_frames tc tu s o' q))" for r
  proof -
    from that obtain sfx sfx' where "sfx \<in> set ef_suffixes" "sfx' \<in> set ef_suffixes"
      "r = fst p @ sfx" "r = fst q @ sfx'"
      unfolding map_fst_ef_frames by auto
    with ef_suffix_inj[of sfx sfx' "fst p" "fst q"] assms show False by simp
  qed
  then show ?thesis by blast
qed

lemma distinct_all_frames:
  "distinct (map fst cs) \<Longrightarrow> distinct (map fst (concat (map (ef_frames tc tu s o') cs)))"
proof (induction cs)
  case Nil
  then show ?case by simp
next
  case (Cons c cs)
  have "set (map fst (ef_frames tc tu s o' c)) \<inter> set (map fst (ef_frames tc tu s o' q)) = {}"
    if "q \<in> set cs" for q
    using Cons.prems that by (intro ef_frames_names_disjoint) auto
  then have "set (map fst (ef_frames tc tu s o' c)) \<inter>
             set (map fst (concat (map (ef_frames tc tu s o') cs))) = {}"
    by auto
  with Cons show ?case
    by (simp add: distinct_ef_frames)
qed

lemma count_key_distinct:
  "distinct (map fst xs) \<Longrightarrow> f \<in> set xs \<Longrightarrow> length (filter (\<lambda>g. fst g = fst f) xs) = 1"
proof (induction xs)
  case Nil
  then show ?case by simp
next
  case (Cons x xs)
  show ?case
  proof (cases "f = x")
    case True
    have "filter (\<lambda>g. fst g = fst x) xs = []"
      using Cons.prems(1) by (auto simp: filter_empty_conv intro: rev_image_eqI)
    then show ?thesis using True by simp
  next
    case False
    with Cons.prems have "f \<in> set xs" "fst x \<noteq> fst f"
      by (auto simp: image_iff)
    with Cons show ?thesis by simp
  qed
qed

lemma count_key_absent:
  "r \<notin> fst ` set xs \<Longrightarrow> filter (\<lambda>g. fst g = r) xs = []"
  by (auto simp: filter_empty_conv)

lemma count_batches_absent:
  "r \<notin> fst ` set (concat (map F cs)) \<Longrightarrow>
   length (filter (\<lambda>g. fst g = r) (concat (batches_from F acc cs))) =
     length cs * length (filter (\<lambda>g. fst g = r) acc)"
proof (induction cs arbitrary: acc)
  case Nil
  then show ?case by simp
next
  case (Cons c cs)
  have a: "filter (\<lambda>g. fst g = r) (F c) = []"
    using Cons.prems by (intro count_key_absent) auto
  have b: "r \<notin> fst ` set (concat (map F cs))"
    using Cons.prems by auto
  show ?case
    using Cons.IH[OF b, of "acc @ F c"] by (simp add: a)
qed

lemma count_batches_present:
  assumes "distinct (map fst (concat (map F cs)))" "j < length cs" "f \<in> set (F (cs ! j))"
  shows "length (filter (\<lambda>g. fst g = fst f) (concat (batches_from F acc cs))) =
           length cs * length (filter (\<lambda>g. fst g = fst f) acc) + (length cs - j)"
  using assms
proof (induction cs arbitrary: acc j)
  case Nil
  then show ?case by simp
next
  case (Cons c cs)
  have dc: "distinct (map fst (F c))" and dcs: "distinct (map fst (concat (map F cs)))"
    and disj: "fst ` set (F c) \<inter> fst ` set (concat (map F cs)) = {}"
    using Cons.prems(1) by auto
  show ?case
  proof (cases j)
    case 0
    with Cons.prems have fc: "f \<in> set (F c)" by simp
    have one: "length (filter (\<lambda>g. fst g = fst f) (F c)) = 1"
      using count_key_distinct[OF dc fc] .
    have "fst f \<notin> fst ` set (concat (map F cs))"
      using disj fc by blast
    from count_batches_absent[OF this, of "acc @ F c"] show ?thesis
      by (simp add: one 0)
  next
    case (Suc k)
    with Cons.prems have k: "k < length cs" and fk: "f \<in> set (F (cs ! k))" by simp_all
    have "f \<in> set (concat (map F cs))"
      using k fk by (auto intro!: bexI[of _ "cs ! k"])
    then have "fst f \<notin> fst ` set (F c)"
      using disj by blast
    then have zero: "filter (\<lambda>g. fst g = fst f) (F c) = []"
      by (rule count_key_absent)
    from Cons.IH[OF dcs k fk, of "acc @ F c"] k show ?thesis
      by (simp add: zero Suc)
  qed
qed

lemma set_batches_from:
  "set (concat (batches_from F acc cs)) \<subseteq> set acc \<union> set (concat (map F cs))"
proof (induction cs arbitrary: acc)
  case Nil
  then show ?case by simp
next
  case (Cons c cs)
  have "set (concat (batches_from F (acc @ F c) cs)) \<subseteq>
          set (acc @ F c) \<union> set (concat (map F cs))"
    by (rule Cons.IH)
  then show ?case by auto
qed

lemma length_concat_ef_frames:
  "length (concat (map (ef_frames tc tu s o') cs)) = 5 * length cs"
  by (induction cs) (auto simp: ef_frames_def ef_suffixes_def)

text \<open>
  Claim C10. The batched write is inside the loop and writes the whole accumulated
  list. When \<^verbatim>\<open>configure_ain_ef_registers\<close> returns for \<open>m\<close> channels, it has issued
  \<open>m\<close> batches; batch number \<open>i + 1\<close> holds the frames of the first \<open>i + 1\<close> channels,
  that is \<open>5 * (i + 1)\<close> entries; and with distinct channel names every register of the
  channel at position \<open>j + 1\<close> is written \<open>m - j\<close> times in total, each time with the
  same value.
\<close>

theorem configure_ain_ef_registers_batches:
  assumes ret: "configure_ain_ef_registers env w channel_names tc_index tu_index cjc_addresses
                  cjc_slope cjc_offset = (Inr (), w')"
    and len: "length cjc_addresses = length channel_names"
  shows "\<exists>batches. wlog w' = wlog w @ batches \<and> length batches = length channel_names \<and>
           (\<forall>i < length channel_names.
              batches ! i = concat (map (ef_frames tc_index tu_index cjc_slope cjc_offset)
                              (take (Suc i) (zip channel_names cjc_addresses))) \<and>
              length (batches ! i) = 5 * Suc i) \<and>
           (distinct channel_names \<longrightarrow>
              (\<forall>j < length channel_names.
                 \<forall>f \<in> set (ef_frames tc_index tu_index cjc_slope cjc_offset
                              (zip channel_names cjc_addresses ! j)).
                   length (filter (\<lambda>g. fst g = fst f) (concat batches)) =
                     length channel_names - j \<and>
                   (\<forall>g \<in> set (concat batches). fst g = fst f \<longrightarrow> g = f)))"
proof -
  define cs where "cs = zip channel_names cjc_addresses"
  define F where "F = ef_frames tc_index tu_index cjc_slope cjc_offset"
  define batches where "batches = batches_from F [] cs"
  have lcs: "length cs = length channel_names" and fcs: "map fst cs = channel_names"
    using len by (simp_all add: cs_def)
  from ret obtain plan where
    loop: "ain_ef_loop env w [] [] tc_index tu_index cjc_slope cjc_offset cs = (Inr plan, w')"
    by (auto simp: configure_ain_ef_registers_def cs_def split: prod.splits sum.splits)
  have log: "wlog w' = wlog w @ batches"
    using ain_ef_loop_log[of env w "[]" "[]" _ _ _ _ cs "fst plan" "snd plan" w'] loop
    by (simp add: batches_def F_def)
  have lb: "length batches = length channel_names"
    by (simp add: batches_def length_batches_from lcs)
  have nth: "batches ! i = concat (map F (take (Suc i) cs)) \<and> length (batches ! i) = 5 * Suc i"
    if "i < length channel_names" for i
  proof -
    have "batches ! i = concat (map F (take (Suc i) cs))"
      using that nth_batches_from[of i cs F "[]"] by (simp add: batches_def lcs)
    moreover have "length (concat (map F (take (Suc i) cs))) = 5 * Suc i"
      using that by (simp add: F_def length_concat_ef_frames lcs min_def)
    ultimately show ?thesis by simp
  qed
  have cnt: "length (filter (\<lambda>g. fst g = fst f) (concat batches)) = length channel_names - j \<and>
             (\<forall>g \<in> set (concat batches). fst g = fst f \<longrightarrow> g = f)"
    if d: "distinct channel_names" and j: "j < length channel_names" and f: "f \<in> set (F (cs ! j))"
    for j f
  proof -
    have dist: "distinct (map fst (concat (map F cs)))"
      unfolding F_def by (rule distinct_all_frames) (simp add: fcs d)
    have "length (filter (\<lambda>g. fst g = fst f) (concat batches)) = length channel_names - j"
      using count_batches_present[OF dist _ f, of "[]"] j by (simp add: batches_def lcs)
    moreover have "g = f" if g: "g \<in> set (concat batches)" and e: "fst g = fst f" for g
    proof -
      have gi: "g \<in> set (concat (map F cs))"
        using g set_batches_from[of F "[]" cs] by (auto simp: batches_def)
      have fi: "f \<in> set (concat (map F cs))"
        using f j by (auto simp: lcs intro!: bexI[of _ "cs ! j"])
      have "inj_on fst (set (concat (map F cs)))"
        using dist by (simp add: distinct_map)
      from inj_onD[OF this e gi fi] show ?thesis .
    qed
    ultimately show ?thesis by blast
  qed
  show ?thesis
    using log lb nth cnt unfolding F_def cs_def by blast
qed

lemma configure_0_2:
  "configure_ain_ef_registers (env_ok dtT7) world0 [''AIN0'', ''AIN2''] 22 1 [60052, 60052] 1 0 =
     (Inr (), world0\<lparr>wlog :=
        [[(''AIN0_EF_INDEX'', PyInt 22), (''AIN0_EF_CONFIG_A'', PyInt 1),
          (''AIN0_EF_CONFIG_B'', PyInt 60052), (''AIN0_EF_CONFIG_D'', PyFloat 1),
          (''AIN0_EF_CONFIG_E'', PyFloat 0)],
         [(''AIN0_EF_INDEX'', PyInt 22), (''AIN0_EF_CONFIG_A'', PyInt 1),
          (''AIN0_EF_CONFIG_B'', PyInt 60052), (''AIN0_EF_CONFIG_D'', PyFloat 1),
          (''AIN0_EF_CONFIG_E'', PyFloat 0),
          (''AIN2_EF_INDEX'', PyInt 22), (''AIN2_EF_CONFIG_A'', PyInt 1),
          (''AIN2_EF_CONFIG_B'', PyInt 60052), (''AIN2_EF_CONFIG_D'', PyFloat 1),
          (''AIN2_EF_CONFIG_E'', PyFloat 0)]]\<rparr>)"
  by (simp add: configure_ain_ef_registers_def eWriteNames_def env_ok_sel world0_def)

theorem configure_ain_ef_registers_batches_witness:
  "length [60052, 60052 :: int] = length [''AIN0'', ''AIN2''] \<and> distinct [''AIN0'', ''AIN2''] \<and>
   (\<exists>w'. configure_ain_ef_registers (env_ok dtT7) world0 [''AIN0'', ''AIN2''] 22 1
            [60052, 60052] 1 0 = (Inr (), w') \<and>
      length (wlog w') = 2 \<and> length (wlog w' ! 0) = 5 \<and> length (wlog w' ! 1) = 10 \<and>
      length (filter (\<lambda>g. fst g = ''AIN0_EF_INDEX'') (concat (wlog w'))) = 2 \<and>
      length (filter (\<lambda>g. fst g = ''AIN2_EF_INDEX'') (concat (wlog w'))) = 1)"
proof -
  have len: "length [60052, 60052 :: int] = length [''AIN0'', ''AIN2'']" by simp
  have d: "distinct [''AIN0'', ''AIN2'']" by simp
  obtain w' where ret: "configure_ain_ef_registers (env_ok dtT7) world0 [''AIN0'', ''AIN2''] 22 1
            [60052, 60052] 1 0 = (Inr (), w')"
    using configure_0_2 by blast
  from configure_ain_ef_registers_batches[OF ret len] obtain batches where
    log: "wlog w' = wlog world0 @ batches" and
    lb: "length batches = length [''AIN0'', ''AIN2'']" and
    nth: "\<forall>i < length [''AIN0'', ''AIN2''].
              batches ! i = concat (map (ef_frames 22 1 1 0)
                              (take (Suc i) (zip [''AIN0'', ''AIN2''] [60052, 60052]))) \<and>
              length (batches ! i) = 5 * Suc i" and
    cnt: "distinct [''AIN0'', ''AIN2''] \<longrightarrow>
              (\<forall>j < length [''AIN0'', ''AIN2''].
                 \<forall>f \<in> set (ef_frames 22 1 1 0 (zip [''AIN0'', ''AIN2''] [60052, 60052] ! j)).
                   length (filter (\<lambda>g. fst g = fst f) (concat batches)) =
                     length [''AIN0'', ''AIN2''] - j \<and>
                   (\<forall>g \<in> set (concat batches). fst g = fst f \<longrightarrow> g = f))"
    by blast
  have b: "wlog w' = batches"
    using log by (simp add: world0_def)
  have c0: "length (filter (\<lambda>g. fst g = ''AIN0_EF_INDEX'') (concat batches)) = 2"
    using cnt[rule_format, OF d, of 0 "(''AIN0_EF_INDEX'', PyInt 22)"]
    by (simp add: ef_frames_def ef_suffixes_def)
  have c1: "length (filter (\<lambda>g. fst g = ''AIN2_EF_INDEX'') (concat batches)) = 1"
    using cnt[rule_format, OF d, of 1 "(''AIN2_EF_INDEX'', PyInt 22)"]
    by (simp add: ef_frames_def ef_suffixes_def)
  have "length (batches ! 0) = 5" "length (batches ! 1) = 10"
    using nth[rule_format, of 0] nth[rule_format, of 1]
    by (simp_all add: ef_frames_def ef_suffixes_def)
  with lb c0 c1 ret show ?thesis
    unfolding b[symmetric] by - (intro conjI exI[of _ w'], simp_all)
qed

lemma channel_names_0_2: "map create_analog_channel [0, 2] = [''AIN0'', ''AIN2'']"
  by (simp add: create_analog_channel_def str_of_int_digits)

text \<open>
  Claim C6. For channels 0 and 2, type K, unit C on a T8 the inputs of the plan are
  index 22, unit index 1, slope 1.0, offset 0.0, names \<^verbatim>\<open>AIN0\<close>, \<^verbatim>\<open>AIN2\<close> and CJC
  addresses 600, 604; and when its two writes succeed the loop of
  \<^verbatim>\<open>configure_ain_ef_registers\<close> ends with exactly ten entries, the five registers
  \<^verbatim>\<open>EF_INDEX\<close>, \<^verbatim>\<open>EF_CONFIG_A\<close>, \<^verbatim>\<open>B\<close>, \<^verbatim>\<open>D\<close>, \<^verbatim>\<open>E\<close> of \<^verbatim>\<open>AIN0\<close> and then of
  \<^verbatim>\<open>AIN2\<close>, and no other; these ten frames are what its last batch writes.
\<close>

theorem register_plan_0_2_K_C_T8:
  assumes "write_res env (length (wlog w)) = None" "write_res env (Suc (length (wlog w))) = None"
  shows "set_tc_index ''K'' = Inr 22 \<and> get_temp_unit_index ''C'' = Inr 1 \<and>
         set_cjc_slope_offset ''K'' = Some (1, 0) \<and>
         map create_analog_channel [0, 2] = [''AIN0'', ''AIN2''] \<and>
         map (get_cjc_address dtT8) [0, 2] = [600, 604] \<and>
         fst (ain_ef_loop env w [] [] 22 1 1 0 (zip [''AIN0'', ''AIN2''] [600, 604])) =
           Inr ([''AIN0_EF_INDEX'', ''AIN0_EF_CONFIG_A'', ''AIN0_EF_CONFIG_B'',
                 ''AIN0_EF_CONFIG_D'', ''AIN0_EF_CONFIG_E'',
                 ''AIN2_EF_INDEX'', ''AIN2_EF_CONFIG_A'', ''AIN2_EF_CONFIG_B'',
                 ''AIN2_EF_CONFIG_D'', ''AIN2_EF_CONFIG_E''],
                [PyInt 22, PyInt 1, PyInt 600, PyFloat 1, PyFloat 0,
                 PyInt 22, PyInt 1, PyInt 604, PyFloat 1, PyFloat 0]) \<and>
         last (wlog (snd (configure_ain_ef_registers env w [''AIN0'', ''AIN2''] 22 1 [600, 604]
                            1 0))) =
           [(''AIN0_EF_INDEX'', PyInt 22), (''AIN0_EF_CONFIG_A'', PyInt 1),
            (''AIN0_EF_CONFIG_B'', PyInt 600), (''AIN0_EF_CONFIG_D'', PyFloat 1),
            (''AIN0_EF_CONFIG_E'', PyFloat 0),
            (''AIN2_EF_INDEX'', PyInt 22), (''AIN2_EF_CONFIG_A'', PyInt 1),
            (''AIN2_EF_CONFIG_B'', PyInt 604), (''AIN2_EF_CONFIG_D'', PyFloat 1),
            (''AIN2_EF_CONFIG_E'', PyFloat 0)]"
proof -
  have "set_tc_index ''K'' = Inr 22"
    by (simp add: set_tc_index_k lower_upper_letters)
  moreover have "get_temp_unit_index ''C'' = Inr 1"
    by (simp add: get_temp_unit_index_def temp_unit_index_def lower_upper_letters)
  moreover have "set_cjc_slope_offset ''K'' = Some (1, 0)"
    by (simp add: set_cjc_slope_offset_k lower_upper_letters)
  moreover have "map (get_cjc_address dtT8) [0, 2] = [600, 604]"
    by (simp add: get_cjc_address_def)
  moreover have "fst (ain_ef_loop env w [] [] 22 1 1 0 (zip [''AIN0'', ''AIN2''] [600, 604])) =
           Inr ([''AIN0_EF_INDEX'', ''AIN0_EF_CONFIG_A'', ''AIN0_EF_CONFIG_B'',
                 ''AIN0_EF_CONFIG_D'', ''AIN0_EF_CONFIG_E'',
                 ''AIN2_EF_INDEX'', ''AIN2_EF_CONFIG_A'', ''AIN2_EF_CONFIG_B'',
                 ''AIN2_EF_CONFIG_D'', ''AIN2_EF_CONFIG_E''],
                [PyInt 22, PyInt 1, PyInt 600, PyFloat 1, PyFloat 0,
                 PyInt 22, PyInt 1, PyInt 604, PyFloat 1, PyFloat 0])"
    using assms by (simp add: eWriteNames_def)
  moreover have "last (wlog (snd (configure_ain_ef_registers env w [''AIN0'', ''AIN2''] 22 1
                                     [600, 604] 1 0))) =
           [(''AIN0_EF_INDEX'', PyInt 22), (''AIN0_EF_CONFIG_A'', PyInt 1),
            (''AIN0_EF_CONFIG_B'', PyInt 600), (''AIN0_EF_CONFIG_D'', PyFloat 1),
            (''AIN0_EF_CONFIG_E'', PyFloat 0),
            (''AIN2_EF_INDEX'', PyInt 22), (''AIN2_EF_CONFIG_A'', PyInt 1),
            (''AIN2_EF_CONFIG_B'', PyInt 604), (''AIN2_EF_CONFIG_D'', PyFloat 1),
            (''AIN2_EF_CONFIG_E'', PyFloat 0)]"
    using assms by (simp add: configure_ain_ef_registers_def eWriteNames_def)
  ultimately show ?thesis
    using channel_names_0_2 by simp
qed

theorem register_plan_0_2_K_C_T8_witness:
  "fst (ain_ef_loop (env_ok dtT8) world0 [] [] 22 1 1 0 (zip [''AIN0'', ''AIN2''] [600, 604])) =
           Inr ([''AIN0_EF_INDEX'', ''AIN0_EF_CONFIG_A'', ''AIN0_EF_CONFIG_B'',
                 ''AIN0_EF_CONFIG_D'', ''AIN0_EF_CONFIG_E'',
                 ''AIN2_EF_INDEX'', ''AIN2_EF_CONFIG_A'', ''AIN2_EF_CONFIG_B'',
                 ''AIN2_EF_CONFIG_D'', ''AIN2_EF_CONFIG_E''],
                [PyInt 22, PyInt 1, PyInt 600, PyFloat 1, PyFloat 0,
                 PyInt 22, PyInt 1, PyInt 604, PyFloat 1, PyFloat 0])"
  using register_plan_0_2_K_C_T8[of "env_ok dtT8" world0]
  by (simp add: env_ok_sel)

subsection \<open>The sampling loop\<close>

lemma sample_loop_step_ok:
  assumes "tick_ok env i"
  shows "sample_loop env names start i (Suc r) rws =
           sample_loop env names start (Suc i) r (rws @ [tick_row env names start i])"
  using assms
  by (cases "read_res env i")
    (simp_all add: tick_ok_def eReadNames_def waitForNextInterval_def tick_row_def Let_def)

lemma sample_loop_step_read_fails:
  assumes "read_res env i = Inl msg"
  shows "sample_loop env names start i (Suc r) rws = (rws, Some (LJMError msg))"
  using assms by (simp add: eReadNames_def)

lemma sample_loop_step_wait_fails:
  assumes "\<not> isl (read_res env i)" "wait_res env i = Some msg"
  shows "sample_loop env names start i (Suc r) rws =
           (rws @ [tick_row env names start i], Some (LJMError msg))"
  using assms
  by (cases "read_res env i")
    (simp_all add: eReadNames_def waitForNextInterval_def tick_row_def Let_def)

lemma sample_loop_all_ok:
  "\<forall>j<r. tick_ok env (i + j) \<Longrightarrow>
   sample_loop env names start i r rws =
     (rws @ map (tick_row env names start) [i..<i + r], None)"
proof (induction r arbitrary: i rws)
  case 0
  then show ?case by simp
next
  case (Suc r)
  have ok: "tick_ok env i" using Suc.prems by (elim allE[of _ 0]) simp
  have rest: "\<forall>j<r. tick_ok env (Suc i + j)"
    using Suc.prems by (auto dest: spec[of _ "Suc j" for j])
  show ?case
    by (simp add: sample_loop_step_ok[OF ok] Suc.IH[OF rest] upt_conv_Cons del: upt_Suc sample_loop.simps)
qed

lemma sample_loop_read_fails:
  "k < r \<Longrightarrow> \<forall>j<k. tick_ok env (i + j) \<Longrightarrow> read_res env (i + k) = Inl msg \<Longrightarrow>
   sample_loop env names start i r rws =
     (rws @ map (tick_row env names start) [i..<i + k], Some (LJMError msg))"
proof (induction r arbitrary: i k rws)
  case 0
  then show ?case by simp
next
  case (Suc r)
  show ?case
  proof (cases k)
    case 0
    with Suc.prems show ?thesis
      by (simp add: sample_loop_step_read_fails del: sample_loop.simps)
  next
    case (Suc k')
    have ok: "tick_ok env i" using Suc.prems(2) Suc by (elim allE[of _ 0]) simp
    have rest: "\<forall>j<k'. tick_ok env (Suc i + j)"
      using Suc.prems(2) Suc by (auto dest: spec[of _ "Suc j" for j])
    have kr: "k' < r" using Suc.prems(1) Suc by simp
    have f: "read_res env (Suc i + k') = Inl msg" using Suc.prems(3) Suc by simp
    show ?thesis
      by (simp add: sample_loop_step_ok[OF ok] Suc.IH[OF kr rest f] Suc upt_conv_Cons del: upt_Suc sample_loop.simps)
  qed
qed

lemma sample_loop_wait_fails:
  "k < r \<Longrightarrow> \<forall>j<k. tick_ok env (i + j) \<Longrightarrow> \<not> isl (read_res env (i + k)) \<Longrightarrow>
   wait_res env (i + k) = Some msg \<Longrightarrow>
   sample_loop env names start i r rws =
     (rws @ map (tick_row env names start) [i..<Suc (i + k)], Some (LJMError msg))"
proof (induction r arbitrary: i k rws)
  case 0
  then show ?case by simp
next
  case (Suc r)
  show ?case
  proof (cases k)
    case 0
    with Suc.prems show ?thesis
      by (simp add: sample_loop_step_wait_fails del: sample_loop.simps)
  next
    case (Suc k')
    have ok: "tick_ok env i" using Suc.prems(2) Suc by (elim allE[of _ 0]) simp
    have rest: "\<forall>j<k'. tick_ok env (Suc i + j)"
      using Suc.prems(2) Suc by (auto dest: spec[of _ "Suc j" for j])
    have kr: "k' < r" using Suc.prems(1) Suc by simp
    have f: "\<not> isl (read_res env (Suc i + k'))" "wait_res env (Suc i + k') = Some msg"
      using Suc.prems(3,4) Suc by simp_all
    show ?thesis
      using Suc.IH[OF kr rest f]
      by (simp add: sample_loop_step_ok[OF ok] Suc upt_conv_Cons del: upt_Suc sample_loop.simps)
  qed
qed

subsection \<open>What the routine leaves behind\<close>

lemma get_channel_value_register_frame:
  "get_channel_value_register env w device_type cn = (r, w') \<Longrightarrow>
   handle_open w' = handle_open w \<and> interval w' = interval w \<and> saved w' = saved w"
  by (auto simp: get_channel_value_register_def eWriteName_def Let_def
      split: if_splits prod.splits sum.splits dest: eWriteNames_frame)

lemma neg_channel_loop_frame:
  "neg_channel_loop env w device_type vs rs cns = (r, w') \<Longrightarrow>
   handle_open w' = handle_open w \<and> interval w' = interval w \<and> saved w' = saved w"
proof (induction cns arbitrary: w vs rs)
  case Nil
  then show ?case by simp
next
  case (Cons cn cns)
  obtain r1 w1 where s1: "get_channel_value_register env w device_type cn = (r1, w1)"
    by (cases "get_channel_value_register env w device_type cn")
  note f1 = get_channel_value_register_frame[OF s1]
  show ?case
  proof (cases r1)
    case (Inl e)
    with Cons.prems s1 f1 show ?thesis by simp
  next
    case (Inr p)
    obtain ncv ncr where p: "p = (ncv, ncr)" by (cases p)
    from Cons.prems s1 Inr p
    have "neg_channel_loop env w1 device_type (vs @ [ncv]) (rs @ [ncr]) cns = (r, w')"
      by simp
    from Cons.IH[OF this] f1 show ?thesis by simp
  qed
qed

lemma set_resolution_index_loop_frame:
  "set_resolution_index_loop env w ps = (r, w') \<Longrightarrow>
   handle_open w' = handle_open w \<and> interval w' = interval w \<and> saved w' = saved w"
proof (induction ps arbitrary: w)
  case Nil
  then show ?case by simp
next
  case (Cons p ps)
  obtain cn c where p: "p = (cn, c)" by (cases p)
  obtain r1 w1 where s1: "eWriteName env w (cn @ ''_RESOLUTION_INDEX'') (PyInt c) = (r1, w1)"
    by (cases "eWriteName env w (cn @ ''_RESOLUTION_INDEX'') (PyInt c)")
  note f1 = eWriteNames_frame[OF s1[unfolded eWriteName_def]]
  show ?case
  proof (cases r1)
    case (Inl e)
    with Cons.prems s1 f1 p show ?thesis by simp
  next
    case (Inr u)
    from Cons.prems s1 Inr p have "set_resolution_index_loop env w1 ps = (r, w')"
      by simp
    from Cons.IH[OF this] f1 show ?thesis by simp
  qed
qed

lemma ain_ef_loop_frame:
  "ain_ef_loop env w aN aV tc tu s o' cs = (r, w') \<Longrightarrow>
   handle_open w' = handle_open w \<and> interval w' = interval w \<and> saved w' = saved w"
proof (induction cs arbitrary: w aN aV)
  case Nil
  then show ?case by simp
next
  case (Cons c cs)
  obtain cn a where c: "c = (cn, a)" by (cases c)
  define aN1 where "aN1 = aN @ map (\<lambda>sfx. cn @ sfx) ef_suffixes"
  define aV1 where "aV1 = aV @ [PyInt tc, PyInt tu, PyInt a, PyFloat s, PyFloat o']"
  obtain r1 w1 where s1: "eWriteNames env w (length aN1) aN1 aV1 = (r1, w1)"
    by (cases "eWriteNames env w (length aN1) aN1 aV1")
  note f1 = eWriteNames_frame[OF s1]
  have unf: "ain_ef_loop env w aN aV tc tu s o' (c # cs) =
    (case eWriteNames env w (length aN1) aN1 aV1 of
       (Inl e, w') \<Rightarrow> (Inl e, w')
     | (Inr u, w') \<Rightarrow> ain_ef_loop env w' aN1 aV1 tc tu s o' cs)"
    by (simp add: c aN1_def aV1_def ef_suffixes_def Let_def split: prod.splits sum.splits)
  show ?case
  proof (cases r1)
    case (Inl e)
    with Cons.prems s1 f1 unf show ?thesis by simp
  next
    case (Inr u)
    from Cons.prems s1 Inr unf have "ain_ef_loop env w1 aN1 aV1 tc tu s o' cs = (r, w')"
      by simp
    from Cons.IH[OF this] f1 show ?thesis by simp
  qed
qed

lemma configure_ain_ef_registers_frame:
  "configure_ain_ef_registers env w cns tc tu addrs s o' = (r, w') \<Longrightarrow>
   handle_open w' = handle_open w \<and> interval w' = interval w \<and> saved w' = saved w"
  by (auto simp: configure_ain_ef_registers_def split: prod.splits sum.splits
      dest: ain_ef_loop_frame)

lemma neg_channel_loop_ok:
  "\<forall>k. write_res env k = None \<Longrightarrow>
   \<exists>r w'. neg_channel_loop env w dtT7 vs rs cns = (Inr r, w')"
proof (induction cns arbitrary: w vs rs)
  case Nil
  then show ?case by simp
next
  case (Cons cn cns)
  show ?case using Cons.IH[OF Cons.prems] Cons.prems
    by (simp add: get_channel_value_register_def eWriteName_def eWriteNames_ok Let_def)
qed

lemma ain_ef_loop_ok:
  "\<forall>k. write_res env k = None \<Longrightarrow>
   \<exists>r w'. ain_ef_loop env w aN aV tc tu s o' cs = (Inr r, w')"
proof (induction cs arbitrary: w aN aV)
  case Nil
  then show ?case by simp
next
  case (Cons c cs)
  obtain cn a where c: "c = (cn, a)" by (cases c)
  show ?case using Cons.IH[OF Cons.prems] Cons.prems
    by (simp add: c eWriteNames_ok Let_def)
qed

lemma set_resolution_index_registers_frame:
  "set_resolution_index_registers env w cns chs = (r, w') \<Longrightarrow>
   handle_open w' = handle_open w \<and> interval w' = interval w \<and> saved w' = saved w"
  unfolding set_resolution_index_registers_def by (rule set_resolution_index_loop_frame)

lemma save_table_frame:
  "save_table env w save_to tab = (r, w') \<Longrightarrow>
   handle_open w' = handle_open w \<and> interval w' = interval w"
  by (auto simp: save_table_def split: option.splits)

lemma routine_Inr:
  assumes "read_and_log_thermocouple env channels tc_type temp_unit n s save_to = (Inr r, w')"
  shows "\<not> handle_open w' \<and> interval w' = None \<and>
         rows (out_data r) = fst (sample_loop env (read_names channels) (now env 0) 0 (nat n) []) \<and>
         loop_error r = snd (sample_loop env (read_names channels) (now env 0) 0 (nat n) [])"
  using assms
  by (auto simp: read_and_log_thermocouple_def Let_def close_def cleanInterval_def read_names_def
      split: prod.splits sum.splits option.splits)

lemma routine_Inl:
  assumes "read_and_log_thermocouple env channels tc_type temp_unit n s save_to = (Inl e, w')"
    and "open_res env = Inr d"
  shows "handle_open w'"
proof -
  define w1 where "w1 = world0\<lparr>handle_open := True\<rparr>"
  have o: "get_labjack_handle env world0 = (Inr d, w1)"
    by (simp add: get_labjack_handle_def assms(2) w1_def)
  have h1: "handle_open w1" by (simp add: w1_def)
  show ?thesis
    using assms(1) h1
    by (auto simp: read_and_log_thermocouple_def o Let_def
        set_time_interval_between_readings_def startInterval_def
        split: prod.splits sum.splits option.splits
        dest!: neg_channel_loop_frame set_resolution_index_registers_frame
          configure_ain_ef_registers_frame save_table_frame)
qed

lemma routine_returns:
  assumes dev: "open_res env = Inr dtT7" and wr: "\<forall>k. write_res env k = None"
    and tc: "lower tc_type = ''k''" and tu: "lower temp_unit \<in> set [''k'', ''c'', ''f'']"
    and sv: "save_to = None \<or> save_res env = None"
  shows "\<exists>r w'. read_and_log_thermocouple env channels tc_type temp_unit n s save_to = (Inr r, w')"
proof -
  obtain i where u: "get_temp_unit_index temp_unit = Inr i"
    using get_temp_unit_index_ok[OF tu] by blast
  define w1 where "w1 = world0\<lparr>handle_open := True\<rparr>"
  define cns where "cns = map create_analog_channel channels"
  obtain negs w2 where n2: "neg_channel_loop env w1 dtT7 [] [] cns = (Inr negs, w2)"
    using neg_channel_loop_ok[OF wr] by blast
  obtain w3 where n3: "set_resolution_index_registers env w2 cns channels = (Inr (), w3)"
    using set_resolution_index_loop_ok[OF wr] unfolding set_resolution_index_registers_def by blast
  obtain plan w4 where n4: "ain_ef_loop env w3 [] [] 22 i 1 0
      (zip cns (map (get_cjc_address dtT7) channels)) = (Inr plan, w4)"
    using ain_ef_loop_ok[OF wr] by blast
  have c4: "configure_ain_ef_registers env w3 cns 22 i (map (get_cjc_address dtT7) channels) 1 0 =
      (Inr (), w4)"
    by (simp add: configure_ain_ef_registers_def n4)
  show ?thesis
  proof (cases save_to)
    case None
    then show ?thesis
      by (simp add: read_and_log_thermocouple_def get_labjack_handle_def dev set_tc_index_k[OF tc]
          set_cjc_slope_offset_k[OF tc] u w1_def[symmetric] cns_def[symmetric] n2 n3 c4 Let_def
          save_table_def split: prod.splits)
  next
    case (Some path)
    with sv have "save_res env = None" by simp
    with Some show ?thesis
      by (simp add: read_and_log_thermocouple_def get_labjack_handle_def dev set_tc_index_k[OF tc]
          set_cjc_slope_offset_k[OF tc] u w1_def[symmetric] cns_def[symmetric] n2 n3 c4 Let_def
          save_table_def split: prod.splits)
  qed
qed

lemmas env_defs =
  env_read3_fails_def env_clock_back_def env_wait_fails_def env_write_fails_def
  env_save_fails_def env_ok_def

lemmas routine_defs =
  read_and_log_thermocouple_def get_labjack_handle_def
  set_tc_index_def ef_indices_def set_cjc_slope_offset_def
  lower_lower_letters lower_upper_letters
  get_temp_unit_index_def temp_unit_index_def create_analog_channel_def str_of_int_digits
  get_channel_value_register_def eWriteName_def eWriteNames_def
  set_resolution_index_registers_def configure_ain_ef_registers_def get_cjc_address_def
  set_time_interval_between_readings_def startInterval_def py_int_def get_read_ABC_def
  eReadNames_def waitForNextInterval_def save_table_def close_def cleanInterval_def
  world0_def dtT7_def dtT8_def dtT4_def GND_def Let_def

lemma routine_read3_fails:
  "read_and_log_thermocouple env_read3_fails [0] ''k'' ''C'' 5 1 None =
    (Inr \<lparr>out_data =
            \<lparr>columns = [''T_thermocouple_AIN0'', ''V_thermocouple_AIN0'',
                        ''T_cold_junction_AIN0'', ''time'', ''dt''],
               rows = [\<lparr>readings = [0, 0, 0], time = 1000000, dt = 1\<rparr>,
                       \<lparr>readings = [1, 1, 1], time = 2000000, dt = 2\<rparr>],
               t_unit = ''C''\<rparr>,
            loop_error = Some (LJMError ''read 3 failed'')\<rparr>,
     \<lparr>handle_open = False, interval = None,
        wlog = [[(''AIN0_NEGATIVE_CH'', PyInt 199)],
                [(''AIN0_RESOLUTION_INDEX'', PyInt 0)],
                [(''AIN0_EF_INDEX'', PyInt 22), (''AIN0_EF_CONFIG_A'', PyInt 1),
                 (''AIN0_EF_CONFIG_B'', PyInt 60052), (''AIN0_EF_CONFIG_D'', PyFloat 1),
                 (''AIN0_EF_CONFIG_E'', PyFloat 0)]],
        saved = None\<rparr>)"
  by (simp add: routine_defs env_defs eval_nat_numeral)

subsection \<open>Read failure, completion, release\<close>

lemma tick_ok_env_read3_fails: "\<forall>i<3 - 1. tick_ok env_read3_fails i"
  by (simp add: tick_ok_def env_defs)

lemma tick_row_env_read3_fails:
  "map (tick_row env_read3_fails [''AIN0_EF_READ_A''] 0) [0..<2] =
     [\<lparr>readings = [0], time = 1000000, dt = 1\<rparr>, \<lparr>readings = [1], time = 2000000, dt = 2\<rparr>]"
  by (simp add: tick_row_def env_defs eval_nat_numeral upt_conv_Cons del: upt_Suc)

text \<open>
  Claim C2. If the ticks before tick \<open>k\<close> (counted from 1) go through and the read of
  tick \<open>k\<close> fails, with \<open>k\<close> within the iteration bound \<open>n\<close> (so in particular when
  \<open>n > k\<close>), the loop ends by its \<^verbatim>\<open>break\<close> with the exception of that read, and its data
  are exactly the \<open>k - 1\<close> rows of the ticks before, in order; a run of the routine that
  reaches its \<^verbatim>\<open>return\<close> has exactly these rows in its table.
\<close>

theorem read_failure_aborts_keeping_rows:
  assumes "0 < k" and "k \<le> n"
    and "\<forall>i<k - 1. tick_ok env i"
    and "read_res env (k - 1) = Inl msg"
  shows "sample_loop env names start 0 n [] =
           (map (tick_row env names start) [0..<k - 1], Some (LJMError msg)) \<and>
         length (map (tick_row env names start) [0..<k - 1]) = k - 1 \<and>
         (read_and_log_thermocouple env channels tc_type temp_unit (int n) s save_to = (Inr r, w')
          \<longrightarrow> rows (out_data r) =
                map (tick_row env (read_names channels) (now env 0)) [0..<k - 1] \<and>
              loop_error r = Some (LJMError msg))"
proof -
  have lt: "k - 1 < n" using assms(1,2) by simp
  have loop: "sample_loop env nms st 0 n [] =
                (map (tick_row env nms st) [0..<k - 1], Some (LJMError msg))" for nms st
    using sample_loop_read_fails[of "k - 1" n env 0 msg nms st "[]"] lt assms(3,4) by simp
  show ?thesis
    using loop routine_Inr[of env channels tc_type temp_unit "int n" s save_to r w']
    by simp
qed

theorem read_failure_aborts_keeping_rows_witness:
  "(0::nat) < 3 \<and> (3::nat) \<le> 5 \<and> read_res env_read3_fails (3 - 1) = Inl ''read 3 failed'' \<and>
   sample_loop env_read3_fails [''AIN0_EF_READ_A''] 0 0 5 [] =
     ([\<lparr>readings = [0], time = 1000000, dt = 1\<rparr>, \<lparr>readings = [1], time = 2000000, dt = 2\<rparr>],
      Some (LJMError ''read 3 failed'')) \<and>
   (\<exists>r w'. read_and_log_thermocouple env_read3_fails [0] ''k'' ''C'' (int 5) 1 None = (Inr r, w') \<and>
      length (rows (out_data r)) = 2 \<and> loop_error r = Some (LJMError ''read 3 failed''))"
proof -
  have f: "read_res env_read3_fails (3 - 1) = Inl ''read 3 failed''"
    by (simp add: env_defs)
  obtain r w' where
    ret: "read_and_log_thermocouple env_read3_fails [0] ''k'' ''C'' (int 5) 1 None = (Inr r, w')"
    using routine_read3_fails by simp
  note inst = read_failure_aborts_keeping_rows[of 3 5 env_read3_fails "''read 3 failed''"
      "[''AIN0_EF_READ_A'']" 0 "[0]" "''k''" "''C''" 1 None r w',
      OF _ _ tick_ok_env_read3_fails f]
  have loop: "sample_loop env_read3_fails [''AIN0_EF_READ_A''] 0 0 5 [] =
     ([\<lparr>readings = [0], time = 1000000, dt = 1\<rparr>, \<lparr>readings = [1], time = 2000000, dt = 2\<rparr>],
      Some (LJMError ''read 3 failed''))"
    using inst by (simp add: tick_row_env_read3_fails)
  have "length (rows (out_data r)) = 2 \<and> loop_error r = Some (LJMError ''read 3 failed'')"
    using inst ret by simp
  with ret have "\<exists>r w'. read_and_log_thermocouple env_read3_fails [0] ''k'' ''C'' (int 5) 1 None =
      (Inr r, w') \<and> length (rows (out_data r)) = 2 \<and>
      loop_error r = Some (LJMError ''read 3 failed'')"
    by blast
  with f loop show ?thesis by simp
qed

lemma dt_tick_row:
  "dt (tick_row env names start i) = real_of_int (now env (Suc i) - start) / 10 ^ 6"
  by (simp add: tick_row_def)

lemma sorted_dt_iff_clock:
  "sorted_wrt (<) (map dt (map (tick_row env names start) is)) \<longleftrightarrow>
   sorted_wrt (<) (map (\<lambda>i. now env (Suc i)) is)"
  by (simp add: sorted_wrt_map dt_tick_row divide_less_cancel)

text \<open>
  Claim C7, as amended. If all \<open>n\<close> ticks go through (no read and no wait raises), the
  loop runs to its end with exactly \<open>n\<close> rows, row \<open>i\<close> being that of tick \<open>i\<close>, and the
  \<^verbatim>\<open>dt\<close> of a row is its wall-clock reading minus the start reading; the \<^verbatim>\<open>dt\<close> values
  are strictly increasing exactly when the wall-clock readings of the ticks are. The
  counterexample: with a clock that steps back the second \<^verbatim>\<open>dt\<close> is smaller than the
  first although nothing failed, and a failing wait ends a two-tick run after one row
  although no read failed.
\<close>

theorem sampling_completes_in_read_order:
  assumes "\<forall>i<n. tick_ok env i"
  shows "sample_loop env names start 0 n [] = (map (tick_row env names start) [0..<n], None) \<and>
         length (map (tick_row env names start) [0..<n]) = n \<and>
         (sorted_wrt (<) (map dt (map (tick_row env names start) [0..<n])) \<longleftrightarrow>
          sorted_wrt (<) (map (\<lambda>i. now env (Suc i)) [0..<n])) \<and>
         (read_and_log_thermocouple env channels tc_type temp_unit (int n) s save_to = (Inr r, w')
          \<longrightarrow> rows (out_data r) = map (tick_row env (read_names channels) (now env 0)) [0..<n] \<and>
              loop_error r = None)"
proof -
  have loop: "sample_loop env nms st 0 n [] = (map (tick_row env nms st) [0..<n], None)"
    for nms st
    using sample_loop_all_ok[of n env 0 nms st "[]"] assms by simp
  show ?thesis
    using loop routine_Inr[of env channels tc_type temp_unit "int n" s save_to r w']
      sorted_dt_iff_clock[of env names start "[0..<n]"]
    by simp
qed

theorem sampling_completes_in_read_order_witness:
  "sample_loop (env_ok dtT7) [''AIN0_EF_READ_A''] 0 0 3 [] =
     ([\<lparr>readings = [0], time = 1000000, dt = 1\<rparr>, \<lparr>readings = [1], time = 2000000, dt = 2\<rparr>,
       \<lparr>readings = [2], time = 3000000, dt = 3\<rparr>], None) \<and>
   sorted_wrt (<) (map dt (map (tick_row (env_ok dtT7) [''AIN0_EF_READ_A''] 0) [0..<3]))"
proof -
  have ok: "\<forall>i<3. tick_ok (env_ok dtT7) i"
    by (simp add: tick_ok_def env_ok_sel)
  have rws: "map (tick_row (env_ok dtT7) [''AIN0_EF_READ_A''] 0) [0..<3] =
     [\<lparr>readings = [0], time = 1000000, dt = 1\<rparr>, \<lparr>readings = [1], time = 2000000, dt = 2\<rparr>,
       \<lparr>readings = [2], time = 3000000, dt = 3\<rparr>]"
    by (simp add: tick_row_def env_ok_sel eval_nat_numeral upt_conv_Cons del: upt_Suc)
  from sampling_completes_in_read_order[of 3 "env_ok dtT7" "[''AIN0_EF_READ_A'']" 0, OF ok]
  show ?thesis
    by (simp add: rws)
qed

theorem dt_not_increasing_counterexample:
  "read_and_log_thermocouple env_clock_back [0] ''k'' ''C'' 2 1 None =
    (Inr \<lparr>out_data =
            \<lparr>columns = [''T_thermocouple_AIN0'', ''V_thermocouple_AIN0'',
                        ''T_cold_junction_AIN0'', ''time'', ''dt''],
               rows = [\<lparr>readings = [0, 0, 0], time = 1000000, dt = 1\<rparr>,
                       \<lparr>readings = [1, 1, 1], time = 500000, dt = 1 / 2\<rparr>],
               t_unit = ''C''\<rparr>,
            loop_error = None\<rparr>,
     \<lparr>handle_open = False, interval = None,
        wlog = [[(''AIN0_NEGATIVE_CH'', PyInt 199)],
                [(''AIN0_RESOLUTION_INDEX'', PyInt 0)],
                [(''AIN0_EF_INDEX'', PyInt 22), (''AIN0_EF_CONFIG_A'', PyInt 1),
                 (''AIN0_EF_CONFIG_B'', PyInt 60052), (''AIN0_EF_CONFIG_D'', PyFloat 1),
                 (''AIN0_EF_CONFIG_E'', PyFloat 0)]],
        saved = None\<rparr>) \<and>
   snd (sample_loop env_clock_back [''AIN0_EF_READ_A''] 0 0 2 []) = None \<and>
   dt (fst (sample_loop env_clock_back [''AIN0_EF_READ_A''] 0 0 2 []) ! 1) <
   dt (fst (sample_loop env_clock_back [''AIN0_EF_READ_A''] 0 0 2 []) ! 0) \<and>
   sample_loop env_wait_fails [''AIN0_EF_READ_A''] 0 0 2 [] =
     ([\<lparr>readings = [0], time = 1000000, dt = 1\<rparr>], Some (LJMError ''wait failed''))"
  by (simp add: routine_defs env_defs eval_nat_numeral)

text \<open>
  Claim C4, as amended. A run that reaches its \<^verbatim>\<open>return\<close> has closed the handle and
  cleared the timer; on a T7 with all writes succeeding, type K, a known unit and a save
  that does not fail the routine does reach its \<^verbatim>\<open>return\<close>, whatever the reads and waits
  do (completed loop or mid-run abort); a run that ends with an exception after the
  device was opened leaves the handle open. The counterexample: an unsupported type, a
  failing configuration write and a failing save each end the routine with the handle
  still open, the last one with the timer still set.
\<close>

theorem release_when_routine_returns:
  "(read_and_log_thermocouple env channels tc_type temp_unit n s save_to = (Inr r, w') \<longrightarrow>
      \<not> handle_open w' \<and> interval w' = None) \<and>
   (open_res env = Inr dtT7 \<and> (\<forall>k. write_res env k = None) \<and> lower tc_type = ''k'' \<and>
    lower temp_unit \<in> set [''k'', ''c'', ''f''] \<and> (save_to = None \<or> save_res env = None) \<longrightarrow>
      (\<exists>r' w''. read_and_log_thermocouple env channels tc_type temp_unit n s save_to = (Inr r', w'') \<and>
         \<not> handle_open w'' \<and> interval w'' = None)) \<and>
   (read_and_log_thermocouple env channels tc_type temp_unit n s save_to = (Inl e, w') \<and>
    open_res env = Inr d \<longrightarrow> handle_open w')"
proof -
  have a: "\<not> handle_open v \<and> interval v = None"
    if "read_and_log_thermocouple env channels tc_type temp_unit n s save_to = (Inr q, v)" for q v
    using routine_Inr[OF that] by simp
  have b: "\<exists>r' w''. read_and_log_thermocouple env channels tc_type temp_unit n s save_to =
             (Inr r', w'') \<and> \<not> handle_open w'' \<and> interval w'' = None"
    if "open_res env = Inr dtT7" "\<forall>k. write_res env k = None" "lower tc_type = ''k''"
      "lower temp_unit \<in> set [''k'', ''c'', ''f'']" "save_to = None \<or> save_res env = None"
    using routine_returns[OF that, of channels n s] a by blast
  have c: "handle_open w'"
    if "read_and_log_thermocouple env channels tc_type temp_unit n s save_to = (Inl e, w')"
      "open_res env = Inr d"
    using routine_Inl[OF that] .
  show ?thesis
    using a b c by blast
qed

theorem release_when_routine_returns_witness:
  "(\<exists>r' w''. read_and_log_thermocouple env_read3_fails [0] ''k'' ''C'' 5 1 None = (Inr r', w'') \<and>
      \<not> handle_open w'' \<and> interval w'' = None) \<and>
   \<not> handle_open (snd (read_and_log_thermocouple env_read3_fails [0] ''k'' ''C'' 5 1 None)) \<and>
   handle_open (snd (read_and_log_thermocouple (env_ok dtT8) [0, 2] ''k'' ''C'' 5 1 None))"
proof -
  have h: "open_res env_read3_fails = Inr dtT7 \<and> (\<forall>k. write_res env_read3_fails k = None) \<and>
    lower ''k'' = ''k'' \<and> lower ''C'' \<in> set [''k'', ''c'', ''f''] \<and>
    ((None :: string option) = None \<or> save_res env_read3_fails = None)"
    by (simp add: env_defs lower_lower_letters lower_upper_letters)
  obtain q v where qv: "read_and_log_thermocouple env_read3_fails [0] ''k'' ''C'' 5 1 None = (Inr q, v)"
    using routine_read3_fails by blast
  obtain e u where eu: "read_and_log_thermocouple (env_ok dtT8) [0, 2] ''k'' ''C'' 5 1 None = (Inl e, u)"
    using routine_first_channel_fails[of "env_ok dtT8" dtT8 "UnboundLocalError ''neg_channel_value''"
        "[0, 2]" "''k''" "''C''" 5 1 None]
    by (simp add: env_ok_sel get_channel_value_register_dtT8 lower_lower_letters lower_upper_letters)
  have o8: "open_res (env_ok dtT8) = Inr dtT8" by (simp add: env_ok_sel)
  have 1: "\<exists>r' w''. read_and_log_thermocouple env_read3_fails [0] ''k'' ''C'' 5 1 None = (Inr r', w'') \<and>
      \<not> handle_open w'' \<and> interval w'' = None"
    using release_when_routine_returns[of env_read3_fails "[0]" "''k''" "''C''" 5 1 None q v
        e dtT7] h by blast
  have 2: "\<not> handle_open v"
    using release_when_routine_returns[of env_read3_fails "[0]" "''k''" "''C''" 5 1 None q v
        e dtT7] qv by blast
  have 3: "handle_open u"
    using release_when_routine_returns[of "env_ok dtT8" "[0, 2]" "''k''" "''C''" 5 1 None q u
        e dtT8] eu o8 by blast
  show ?thesis using 1 2 3 qv eu by simp
qed

theorem release_skipped_counterexample:
  "read_and_log_thermocouple (env_ok dtT7) [0, 2] ''J'' ''C'' 5 1 None =
     (Inl TypeError,
      \<lparr>handle_open = True, interval = None, wlog = [], saved = None\<rparr>) \<and>
   read_and_log_thermocouple env_write_fails [0] ''k'' ''C'' 2 1 None =
     (Inl (LJMError ''write failed''),
      \<lparr>handle_open = True, interval = None,
         wlog = [[(''AIN0_NEGATIVE_CH'', PyInt 199)], [(''AIN0_RESOLUTION_INDEX'', PyInt 0)]],
         saved = None\<rparr>) \<and>
   read_and_log_thermocouple env_save_fails [0] ''k'' ''C'' 2 1 (Some ''out.csv'') =
     (Inl (OSError ''disk full''),
      \<lparr>handle_open = True, interval = Some 1000000,
         wlog = [[(''AIN0_NEGATIVE_CH'', PyInt 199)],
                 [(''AIN0_RESOLUTION_INDEX'', PyInt 0)],
                 [(''AIN0_EF_INDEX'', PyInt 22), (''AIN0_EF_CONFIG_A'', PyInt 1),
                  (''AIN0_EF_CONFIG_B'', PyInt 60052), (''AIN0_EF_CONFIG_D'', PyFloat 1),
                  (''AIN0_EF_CONFIG_E'', PyFloat 0)]],
         saved = None\<rparr>)"
  by (simp add: routine_defs env_defs eval_nat_numeral)

end
